theory Spec2Isabelle
  imports Complex_Main
begin

section \<open>The playback widget as seen by the wrapper\<close>

text \<open>
  The widget (video.js) is an external collaborator. It is modelled by the trace of the
  calls the repository makes into it, in program order, and by the handles it hands out.
  A DOM element and a widget instance are handles (natural numbers); the \<open>n\<close>-th instance
  returned by the constructor has handle \<open>n\<close>. Every widget call is taken to return
  normally.
\<close>

type_synonym element = nat
type_synonym player = nat

text \<open>Object literals passed to the widget, as JavaScript writes them.\<close>

datatype json = JBool bool | JString string | JObject "(string \<times> json) list"

text \<open>
  The closures this repository passes as \<open>onClose\<close>, defunctionalised:
  \<open>() => setIsOpen(false)\<close> of the page is \<open>SetIsOpen False\<close>.
\<close>

datatype callback = SetIsOpen bool

datatype call =
    Videojs element json             \<comment> \<open>\<open>videojs(el, options)\<close>\<close>
  | AddChild player string string    \<comment> \<open>\<open>player.controlBar.addChild(name, {text})\<close>\<close>
  | AddClass player string string    \<comment> \<open>\<open>addClass(cls)\<close> on the child with that text\<close>
  | CreateEl player string rat       \<comment> \<open>\<open>playbackRateMenuButton.createEl(tag, ...)\<close> for a rate\<close>
  | QualityLevels player             \<comment> \<open>\<open>player.qualityLevels()\<close>\<close>
  | Ready player                     \<comment> \<open>\<open>player.ready(cb)\<close>\<close>
  | PlaybackRate player rat          \<comment> \<open>\<open>player.playbackRate(rate)\<close>\<close>
  | Src player string string         \<comment> \<open>\<open>player.src({src, type})\<close>\<close>
  | Dispose player                   \<comment> \<open>\<open>player.dispose()\<close>\<close>
  | OnClose callback                 \<comment> \<open>the \<open>onClose\<close> prop is invoked\<close>
  | ConsoleError string              \<comment> \<open>\<open>console.error(...)\<close>\<close>
  | RemoveChild element              \<comment> \<open>the framework removes the container element\<close>

text \<open>
  The environment: the trace so far, the number of widget instances constructed so far,
  and what \<open>player.qualityLevels\<close> is when the mount effect looks at it: \<open>None\<close> when the
  method is absent (the plugin is not loaded), otherwise the length of the list it returns.
\<close>

record world =
  calls :: "call list"
  created :: nat
  qualityLevels :: "nat option"

definition emit :: "call list \<Rightarrow> world \<Rightarrow> world" where
  "emit cs w = w\<lparr>calls := calls w @ cs\<rparr>"

section \<open>The player wrapper: \<open>src/components/VideoPlayer.tsx\<close>\<close>

text \<open>
  One mounted instance of the component: its props, its two refs, its state hook, and what
  the framework keeps for it (whether the mount effect returned a cleanup function) and
  what the widget keeps for it (the click listeners of the rate menu items, each a closure
  over its rate and over the local \<open>player\<close>; the names of the widget events the wrapper
  subscribed to).
\<close>

record VideoPlayer =
  videoUrl :: string
  onClose :: "callback option"
  videoRef :: "element option"
  playerRef :: "player option"
  isReady :: bool
  cleanup :: bool
  menuItems :: "(rat \<times> player) list"
  subscribed :: "string list"

text \<open>The render before the first commit: \<open>useRef(null)\<close>, \<open>useRef(null)\<close>, \<open>useState(false)\<close>.\<close>

definition render0 :: "string \<Rightarrow> callback option \<Rightarrow> VideoPlayer" where
  "render0 url cb =
     \<lparr>videoUrl = url, onClose = cb, videoRef = None, playerRef = None, isReady = False,
      cleanup = False, menuItems = [], subscribed = []\<rparr>"

text \<open>Lines 34 to 46: the configuration object of the constructor call.\<close>

definition playerOptions :: json where
  "playerOptions = JObject
     [(''controls'', JBool True),
      (''autoplay'', JBool True),
      (''preload'', JString ''auto''),
      (''responsive'', JBool True),
      (''fluid'', JBool True),
      (''html5'', JObject [(''hls'', JObject [(''overrideNative'', JBool True)])])]"

text \<open>Line 58. The JavaScript numbers 0.5, 1, 1.5 and 2 are exact, so they are rationals here.\<close>

definition playbackRates :: "rat list" where
  "playbackRates = [1 / 2, 1, 3 / 2, 2]"

text \<open>
  Lines 59 to 66: one iteration of \<open>forEach\<close> creates the item for a rate and registers its
  click listener. The markup string of the item (\<open>innerHTML\<close>) is presentation only and is
  left out.
\<close>

definition addMenuItem :: "player \<Rightarrow> rat \<Rightarrow> VideoPlayer \<times> world \<Rightarrow> VideoPlayer \<times> world" where
  "addMenuItem p rate cw =
     (case cw of (c, w) \<Rightarrow>
        (c\<lparr>menuItems := menuItems c @ [(rate, p)]\<rparr>, emit [CreateEl p ''li'' rate] w))"

text \<open>
  Lines 70 to 75: \<open>player.qualityLevels && player.qualityLevels().length > 0\<close>. The method
  is called only when it is there; the button is added only when the list is not empty.
\<close>

definition addQualityButton :: "player \<Rightarrow> world \<Rightarrow> world" where
  "addQualityButton p w =
     (case qualityLevels w of
        None \<Rightarrow> w
      | Some n \<Rightarrow>
          (if n > 0
           then emit [QualityLevels p, AddChild p ''button'' ''Quality'',
                      AddClass p ''Quality'' ''vjs-quality-button''] w
           else emit [QualityLevels p] w))"

text \<open>
  Lines 29 to 89, the body of the mount effect. With a null container it returns at once,
  with no cleanup function. Otherwise it constructs the widget, stores it in \<open>playerRef\<close>,
  sets up the control bar, subscribes to \<open>ready\<close> and returns the cleanup function.
\<close>

definition mountEffect :: "VideoPlayer \<Rightarrow> world \<Rightarrow> VideoPlayer \<times> world" where
  "mountEffect c w =
     (case videoRef c of
        None \<Rightarrow> (c, w)
      | Some el \<Rightarrow>
          (let p = created w;
               w1 = emit [Videojs el playerOptions] (w\<lparr>created := Suc p\<rparr>);
               c1 = c\<lparr>playerRef := Some p\<rparr>;
               w2 = emit [AddChild p ''button'' ''1x'',
                          AddClass p ''1x'' ''vjs-playback-rate-button''] w1;
               (c3, w3) = fold (addMenuItem p) playbackRates (c1, w2);
               w4 = addQualityButton p w3;
               w5 = emit [Ready p] w4
           in (c3\<lparr>subscribed := subscribed c3 @ [''ready''], cleanup := True\<rparr>, w5)))"

text \<open>Lines 83 to 88, the cleanup function of the mount effect.\<close>

definition cleanupEffect :: "VideoPlayer \<Rightarrow> world \<Rightarrow> VideoPlayer \<times> world" where
  "cleanupEffect c w =
     (case playerRef c of
        None \<Rightarrow> (c, w)
      | Some p \<Rightarrow> (c\<lparr>playerRef := None\<rparr>, emit [Dispose p] w))"

text \<open>Lines 92 to 99, the body of the source effect (dependencies \<open>[videoUrl, isReady]\<close>).\<close>

definition sourceEffect :: "VideoPlayer \<Rightarrow> world \<Rightarrow> VideoPlayer \<times> world" where
  "sourceEffect c w =
     (case playerRef c of
        None \<Rightarrow> (c, w)
      | Some p \<Rightarrow>
          (if isReady c
           then (c, emit [Src p (videoUrl c) ''application/x-mpegURL''] w)
           else (c, w)))"

text \<open>Lines 63 to 65: the click listener of the \<open>i\<close>-th rate menu item.\<close>

definition clickRate :: "nat \<Rightarrow> VideoPlayer \<Rightarrow> world \<Rightarrow> VideoPlayer \<times> world" where
  "clickRate i c w =
     (if i < length (menuItems c)
      then (case menuItems c ! i of (rate, p) \<Rightarrow> (c, emit [PlaybackRate p rate] w))
      else (c, w))"

section \<open>The life cycle of the wrapper\<close>

text \<open>
  What the UI framework does with the component. On mount it renders, attaches the
  container element that the component's markup (lines 101 to 115) always contains to
  \<open>videoRef\<close>, and runs both effects in the order they are declared. A state update that does
  not change the state is dropped; one that does re-renders, and an effect runs again only
  when one of its dependencies changed: the mount effect (dependencies \<open>[]\<close>) never, the
  source effect when \<open>videoUrl\<close> or \<open>isReady\<close> changed. Both effects are registered with
  \<open>useEffect\<close>, whose cleanup the framework runs after it has removed the component from the
  document: on unmount the container element is removed first, then the cleanup function
  the mount effect returned, if any, runs, and the instance is discarded.
\<close>

definition mount :: "element \<Rightarrow> string \<Rightarrow> callback option \<Rightarrow> world \<Rightarrow> VideoPlayer \<times> world" where
  "mount el url cb w =
     (let c = (render0 url cb)\<lparr>videoRef := Some el\<rparr>;
          (c1, w1) = mountEffect c w
      in sourceEffect c1 w1)"

definition removeContainer :: "VideoPlayer \<Rightarrow> world \<Rightarrow> world" where
  "removeContainer c w =
     (case videoRef c of
        None \<Rightarrow> w
      | Some el \<Rightarrow> emit [RemoveChild el] w)"

definition unmount :: "VideoPlayer \<Rightarrow> world \<Rightarrow> world" where
  "unmount c w =
     (let w1 = removeContainer c w
      in if cleanup c then snd (cleanupEffect c w1) else w1)"

definition setIsReady :: "bool \<Rightarrow> VideoPlayer \<Rightarrow> world \<Rightarrow> VideoPlayer \<times> world" where
  "setIsReady b c w = (if isReady c = b then (c, w) else sourceEffect (c\<lparr>isReady := b\<rparr>) w)"

definition setVideoUrl :: "string \<Rightarrow> VideoPlayer \<Rightarrow> world \<Rightarrow> VideoPlayer \<times> world" where
  "setVideoUrl url c w = (if videoUrl c = url then (c, w) else sourceEffect (c\<lparr>videoUrl := url\<rparr>) w)"

text \<open>
  The widget emits an event of the given name. Lines 78 to 80 subscribe the only handler the
  wrapper has, for \<open>ready\<close>; an event nobody subscribed to runs no code of the wrapper.
\<close>

definition widgetEvent :: "string \<Rightarrow> VideoPlayer \<Rightarrow> world \<Rightarrow> VideoPlayer \<times> world" where
  "widgetEvent name c w =
     (if name = ''ready'' \<and> name \<in> set (subscribed c) then setIsReady True c w else (c, w))"

text \<open>
  A place in the page that holds at most one instance of the wrapper, and what can happen
  to it. Mounting into an occupied place and the other events on an empty place do not
  occur; the step function leaves the state as it is there.
\<close>

record page =
  mounted :: "VideoPlayer option"
  env :: world

datatype event =
    Mount element string "callback option"
  | Unmount
  | SetVideoUrl string
  | Widget string
  | ClickRate nat

definition into :: "page \<Rightarrow> VideoPlayer \<times> world \<Rightarrow> page" where
  "into pg cw = pg\<lparr>mounted := Some (fst cw), env := snd cw\<rparr>"

fun step :: "event \<Rightarrow> page \<Rightarrow> page" where
  "step (Mount el url cb) pg =
     (case mounted pg of
        None \<Rightarrow> into pg (mount el url cb (env pg))
      | Some c \<Rightarrow> pg)"
| "step Unmount pg =
     (case mounted pg of
        None \<Rightarrow> pg
      | Some c \<Rightarrow> pg\<lparr>mounted := None, env := unmount c (env pg)\<rparr>)"
| "step (SetVideoUrl url) pg =
     (case mounted pg of
        None \<Rightarrow> pg
      | Some c \<Rightarrow> into pg (setVideoUrl url c (env pg)))"
| "step (Widget name) pg =
     (case mounted pg of
        None \<Rightarrow> pg
      | Some c \<Rightarrow> into pg (widgetEvent name c (env pg)))"
| "step (ClickRate i) pg =
     (case mounted pg of
        None \<Rightarrow> pg
      | Some c \<Rightarrow> into pg (clickRate i c (env pg)))"

definition init :: "nat option \<Rightarrow> page" where
  "init q = \<lparr>mounted = None, env = \<lparr>calls = [], created = 0, qualityLevels = q\<rparr>\<rparr>"

definition run :: "event list \<Rightarrow> page \<Rightarrow> page" where
  "run es pg = fold step es pg"

text \<open>
  Observers of a trace. \<open>monitor\<close> reads the trace from the left with the widget that is
  live (if any) and the number constructed so far; it fails at a construction while a
  widget is live and at a disposal of anything but the live widget.
\<close>

fun isVideojs :: "call \<Rightarrow> bool" where
  "isVideojs (Videojs el opts) = True"
| "isVideojs c = False"

fun isDispose :: "call \<Rightarrow> bool" where
  "isDispose (Dispose p) = True"
| "isDispose c = False"

definition constructions :: "page \<Rightarrow> nat" where
  "constructions pg = length (filter isVideojs (calls (env pg)))"

definition disposals :: "page \<Rightarrow> nat" where
  "disposals pg = length (filter isDispose (calls (env pg)))"

fun monitor :: "call list \<Rightarrow> player option \<times> nat \<Rightarrow> (player option \<times> nat) option" where
  "monitor [] s = Some s"
| "monitor (Videojs el opts # cs) (live, n) =
     (if live = None then monitor cs (Some n, Suc n) else None)"
| "monitor (Dispose p # cs) (live, n) =
     (if live = Some p then monitor cs (None, n) else None)"
| "monitor (c # cs) s = monitor cs s"

fun isMount :: "event \<Rightarrow> bool" where
  "isMount (Mount el url cb) = True"
| "isMount e = False"

fun isConsoleError :: "call \<Rightarrow> bool" where
  "isConsoleError (ConsoleError msg) = True"
| "isConsoleError c = False"

fun isOnClose :: "call \<Rightarrow> bool" where
  "isOnClose (OnClose cb) = True"
| "isOnClose c = False"

text \<open>The value of a key of an object literal.\<close>

fun field :: "string \<Rightarrow> json \<Rightarrow> json option" where
  "field k (JObject kvs) = map_of kvs k"
| "field k j = None"

text \<open>The widget held by the mounted instance, if any.\<close>

definition live :: "page \<Rightarrow> player option" where
  "live pg = (case mounted pg of None \<Rightarrow> None | Some c \<Rightarrow> playerRef c)"

text \<open>
  \<open>ratesAfterConstruction n cs\<close>: reading \<open>cs\<close> from the left with \<open>n\<close> widgets constructed
  before it, every rate-setting call is on a widget that a constructor call has already
  returned.
\<close>

fun ratesAfterConstruction :: "nat \<Rightarrow> call list \<Rightarrow> bool" where
  "ratesAfterConstruction n [] = True"
| "ratesAfterConstruction n (Videojs el opts # cs) = ratesAfterConstruction (Suc n) cs"
| "ratesAfterConstruction n (PlaybackRate p r # cs) = (p < n \<and> ratesAfterConstruction n cs)"
| "ratesAfterConstruction n (c # cs) = ratesAfterConstruction n cs"

text \<open>The calls of lines 70 to 75 and of the whole mount effect, written out.\<close>

definition qualityCalls :: "player \<Rightarrow> nat option \<Rightarrow> call list" where
  "qualityCalls p q =
     (case q of
        None \<Rightarrow> []
      | Some n \<Rightarrow>
          (if n > 0
           then [QualityLevels p, AddChild p ''button'' ''Quality'',
                 AddClass p ''Quality'' ''vjs-quality-button'']
           else [QualityLevels p]))"

definition setupCalls :: "element \<Rightarrow> player \<Rightarrow> nat option \<Rightarrow> call list" where
  "setupCalls el p q =
     [Videojs el playerOptions, AddChild p ''button'' ''1x'',
      AddClass p ''1x'' ''vjs-playback-rate-button'',
      CreateEl p ''li'' (1 / 2), CreateEl p ''li'' 1, CreateEl p ''li'' (3 / 2),
      CreateEl p ''li'' 2] @ qualityCalls p q @ [Ready p]"

definition mountedWith :: "element \<Rightarrow> string \<Rightarrow> callback option \<Rightarrow> player \<Rightarrow> VideoPlayer" where
  "mountedWith el url cb p =
     \<lparr>videoUrl = url, onClose = cb, videoRef = Some el, playerRef = Some p,
      isReady = False, cleanup = True,
      menuItems = [(1 / 2, p), (1, p), (3 / 2, p), (2, p)], subscribed = [''ready'']\<rparr>"

text \<open>The invariant of the reachable states of a place that holds the wrapper.\<close>

definition pageInv :: "page \<Rightarrow> bool" where
  "pageInv pg =
     (constructions pg = created (env pg) \<and>
      disposals pg + (case mounted pg of None \<Rightarrow> 0 | Some c \<Rightarrow> 1) = created (env pg) \<and>
      monitor (calls (env pg)) (None, 0) = Some (live pg, created (env pg)) \<and>
      ratesAfterConstruction 0 (calls (env pg)) \<and>
      (case mounted pg of
         None \<Rightarrow> True
       | Some c \<Rightarrow>
           cleanup c \<and> videoRef c \<noteq> None \<and> subscribed c = [''ready''] \<and>
           (\<exists>p. playerRef c = Some p \<and> created (env pg) = Suc p \<and>
              menuItems c = [(1 / 2, p), (1, p), (3 / 2, p), (2, p)])))"

section \<open>The page and its modal: \<open>Home\<close>\<close>

text \<open>Line 8 of the page.\<close>

definition VIDEO_URL :: string where
  "VIDEO_URL =
     ''https://vz-7335a46e-2e0.b-cdn.net/594c2931-3911-4bc3-a7ee-a085f5050931/playlist.m3u8''"

text \<open>
  The page: its state hook \<open>isOpen\<close> (\<open>useState(false)\<close>), the number of container elements
  the framework has created for it so far, and the content of the dialog.
\<close>

record Home =
  isOpen :: bool
  nodes :: nat
  content :: page

text \<open>
  Modelled from the spec: the dialog component (\<open>components/ui/dialog\<close>) and the player the
  page mounts in it (\<open>components/EnhancedVideoPlayer\<close>) are not among the sources; the
  page only uses them (lines 60 to 73). By sections 2 and 4.2 the modal host mounts the
  player wrapper only while open, with the fixed source URL, and closing unmounts it, which
  runs the teardown. The wrapper mounted here has the life cycle of \<open>VideoPlayer.tsx\<close>
  above; its props are the ones the page passes (lines 68 to 69).
\<close>

definition Dialog :: "Home \<Rightarrow> Home" where
  "Dialog h =
     (case mounted (content h) of
        None \<Rightarrow>
          (if isOpen h
           then h\<lparr>nodes := Suc (nodes h),
                  content := step (Mount (nodes h) VIDEO_URL (Some (SetIsOpen False))) (content h)\<rparr>
           else h)
      | Some c \<Rightarrow>
          (if isOpen h
           then h
           else h\<lparr>content := step Unmount (content h)\<rparr>))"

text \<open>The state setter of the page: an update to the same value is dropped, any other re-renders.\<close>

definition setIsOpen :: "bool \<Rightarrow> Home \<Rightarrow> Home" where
  "setIsOpen b h = (if isOpen h = b then h else Dialog (h\<lparr>isOpen := b\<rparr>))"

text \<open>
  Modelled from the spec: the close control of the player the page mounts
  (\<open>components/EnhancedVideoPlayer\<close>) is not among the sources; \<open>VideoPlayer.tsx\<close> takes
  \<open>onClose\<close> and never calls it. By section 4.1, NotifyClose is invoked when the user
  activates the close action and calls the externally supplied callback, if one was
  supplied (section 6: \<open>onClose\<close> is optional); the wrapper itself does not close the modal.
  The callback then runs in the page.
\<close>

definition NotifyClose :: "VideoPlayer \<Rightarrow> Home \<Rightarrow> Home" where
  "NotifyClose c h =
     (case onClose c of
        None \<Rightarrow> h
      | Some (SetIsOpen b) \<Rightarrow>
          setIsOpen b (h\<lparr>content := (content h)\<lparr>env := emit [OnClose (SetIsOpen b)] (env (content h))\<rparr>\<rparr>))"

text \<open>
  What can happen on the page: the button of line 49, the dialog's \<open>onOpenChange\<close> of line
  60, and, on the mounted player, a widget event, a click on a rate item and the close
  action.
\<close>

datatype action =
    ClickStart
  | OnOpenChange bool
  | WidgetEmits string
  | ClickSpeed nat
  | ClickClose

fun act :: "action \<Rightarrow> Home \<Rightarrow> Home" where
  "act ClickStart h = setIsOpen True h"
| "act (OnOpenChange b) h = setIsOpen b h"
| "act (WidgetEmits name) h = h\<lparr>content := step (Widget name) (content h)\<rparr>"
| "act (ClickSpeed i) h = h\<lparr>content := step (ClickRate i) (content h)\<rparr>"
| "act ClickClose h =
     (case mounted (content h) of
        None \<Rightarrow> h
      | Some c \<Rightarrow> NotifyClose c h)"

definition home0 :: "nat option \<Rightarrow> Home" where
  "home0 q = \<lparr>isOpen = False, nodes = 0, content = init q\<rparr>"

definition browse :: "action list \<Rightarrow> Home \<Rightarrow> Home" where
  "browse as h = fold act as h"

section \<open>The quality selection\<close>

text \<open>
  Modelled from the spec: the quality selection of the player the page mounts
  (\<open>components/EnhancedVideoPlayer\<close>) is not among the sources; \<open>VideoPlayer.tsx\<close> only adds a
  button without a listener (lines 70 to 75). By section 3 a playback session has a source
  URL, a current playback rate, a selected quality label and a ready flag; by section 4.1,
  SetQualityLabel(label), for a label of the fixed set, is stored as UI-selection state
  only and makes no call into the widget.
\<close>

record PlaybackSession =
  sourceUrl :: string
  playbackRate :: rat
  selectedQuality :: string
  ready :: bool

definition qualityLabels :: "string list" where
  "qualityLabels = [''auto'', ''1080'', ''720'', ''480'', ''360'']"

definition SetQualityLabel :: "string \<Rightarrow> PlaybackSession \<times> call list \<Rightarrow> PlaybackSession \<times> call list" where
  "SetQualityLabel label st =
     (case st of (s, trace) \<Rightarrow>
        (s\<lparr>selectedQuality := label\<rparr>, trace))"



text \<open>The invariant of the reachable states of the page.\<close>

definition homeInv :: "Home \<Rightarrow> bool" where
  "homeInv h =
     (pageInv (content h) \<and>
      (case mounted (content h) of
         None \<Rightarrow> \<not> isOpen h
       | Some c \<Rightarrow> isOpen h \<and> onClose c = Some (SetIsOpen False) \<and> videoUrl c = VIDEO_URL))"

section \<open>Proofs\<close>

subsection \<open>What each operation does\<close>

lemma addQualityButton_eq: "addQualityButton p w = emit (qualityCalls p (qualityLevels w)) w"
  by (simp add: addQualityButton_def qualityCalls_def emit_def split: option.splits)

lemma mount_eq:
  "mount el url cb w =
     (mountedWith el url cb (created w),
      w\<lparr>calls := calls w @ setupCalls el (created w) (qualityLevels w),
        created := Suc (created w)\<rparr>)"
  by (simp add: mount_def mountEffect_def render0_def sourceEffect_def Let_def
      playbackRates_def addMenuItem_def addQualityButton_eq emit_def setupCalls_def
      mountedWith_def)

lemma monitor_append:
  "monitor (xs @ ys) s = (case monitor xs s of None \<Rightarrow> None | Some s' \<Rightarrow> monitor ys s')"
  by (induction xs s rule: monitor.induct) simp_all

lemma monitor_setupCalls:
  "monitor (setupCalls el p q) (None, n) = Some (Some n, Suc n)"
  by (simp add: setupCalls_def qualityCalls_def split: option.splits)

lemma filter_setupCalls:
  "filter isVideojs (setupCalls el p q) = [Videojs el playerOptions]"
  "filter isDispose (setupCalls el p q) = []"
  by (simp_all add: setupCalls_def qualityCalls_def split: option.splits)

lemma rates_append:
  "ratesAfterConstruction n (xs @ ys) =
     (ratesAfterConstruction n xs \<and> ratesAfterConstruction (n + length (filter isVideojs xs)) ys)"
  by (induction n xs rule: ratesAfterConstruction.induct) simp_all

lemma rates_setupCalls: "ratesAfterConstruction n (setupCalls el p q)"
  by (simp add: setupCalls_def qualityCalls_def split: option.splits)

lemma nth_items: "k < 4 \<Longrightarrow> [(1 / 2, p), (1, p), (3 / 2, p), (2::rat, p::nat)] ! k = ([1 / 2, 1, 3 / 2, 2] ! k, p)"
  by (cases k rule: nat.exhaust; simp add: nth_Cons split: nat.splits)

subsection \<open>The invariant\<close>

lemma pageInv_init: "pageInv (init q)"
  by (simp add: pageInv_def init_def constructions_def disposals_def live_def)

lemma pageInv_step: "pageInv pg \<Longrightarrow> pageInv (step e pg)"
proof (cases "mounted pg")
  case None
  assume "pageInv pg"
  with None show ?thesis
    by (cases e)
      (auto simp: pageInv_def into_def mount_eq constructions_def disposals_def live_def monitor_append
        monitor_setupCalls filter_setupCalls rates_append rates_setupCalls mountedWith_def)
next
  case (Some c)
  assume i: "pageInv pg"
  with Some obtain p where p: "created (env pg) = Suc p"
    and pr: "playerRef c = Some p" "cleanup c" "subscribed c = [''ready'']"
    "menuItems c = [(1 / 2, p), (1, p), (3 / 2, p), (2, p)]" "videoRef c \<noteq> None"
    by (auto simp: pageInv_def)
  show ?thesis
  proof (cases e)
    case (Mount x11 x12 x13)
    with Some i show ?thesis by simp
  next
    case Unmount
    with Some i p pr show ?thesis
      by (auto simp: pageInv_def unmount_def removeContainer_def Let_def cleanupEffect_def emit_def
          constructions_def disposals_def live_def monitor_append rates_append)
  next
    case (SetVideoUrl url)
    with Some i p pr show ?thesis
      by (auto simp: pageInv_def into_def setVideoUrl_def sourceEffect_def emit_def
          constructions_def disposals_def live_def monitor_append rates_append)
  next
    case (Widget name)
    with Some i p pr show ?thesis
      by (auto simp: pageInv_def into_def widgetEvent_def setIsReady_def sourceEffect_def emit_def
          constructions_def disposals_def live_def monitor_append rates_append)
  next
    case (ClickRate k)
    with Some i p pr show ?thesis
      by (auto simp: pageInv_def into_def clickRate_def emit_def nth_items
          constructions_def disposals_def live_def monitor_append rates_append split: prod.splits)
  qed
qed

lemma pageInv_run: "pageInv pg \<Longrightarrow> pageInv (run es pg)"
  unfolding run_def by (induction es arbitrary: pg) (simp_all add: pageInv_step)

lemma pageInv_reachable: "pageInv (run es (init q))"
  by (rule pageInv_run) (rule pageInv_init)

lemma qualityLevels_step: "qualityLevels (env (step e pg)) = qualityLevels (env pg)"
  by (cases e; cases "mounted pg")
     (auto simp: into_def mount_eq unmount_def removeContainer_def Let_def cleanupEffect_def
        setVideoUrl_def sourceEffect_def widgetEvent_def setIsReady_def clickRate_def emit_def
        split: option.splits prod.splits)

lemma qualityLevels_run: "qualityLevels (env (run es pg)) = qualityLevels (env pg)"
  unfolding run_def by (induction es arbitrary: pg) (simp_all add: qualityLevels_step)

lemma pageInv_mounted:
  assumes "pageInv pg" "mounted pg = Some c"
  obtains p el where "playerRef c = Some p" "videoRef c = Some el" "created (env pg) = Suc p"
    "cleanup c" "subscribed c = [''ready'']"
    "menuItems c = [(1 / 2, p), (1, p), (3 / 2, p), (2, p)]"
  using assms by (auto simp: pageInv_def)

section \<open>The claims about the wrapper\<close>

lemmas evals =
  run_def init_def into_def mount_def mountEffect_def render0_def sourceEffect_def
  cleanupEffect_def removeContainer_def unmount_def setIsReady_def setVideoUrl_def widgetEvent_def clickRate_def
  addMenuItem_def addQualityButton_def emit_def playbackRates_def constructions_def
  disposals_def live_def Let_def

text \<open>
  Claim C1. In every state the place can reach, the constructions and disposals of the
  trace alternate strictly, starting with a construction, and each disposal disposes the
  widget constructed last (\<open>monitor\<close> accepts the trace). Every event changes the number
  of constructions by one if it is a mount (into the empty place) and by nothing
  otherwise, so a change of the \<open>videoUrl\<close> prop, a widget event or a click constructs
  nothing; it changes the number of disposals by one if it is an unmount (of the mounted
  instance) and by nothing otherwise.
\<close>

theorem mount_unmount_alternate:
  assumes "pg = run es (init q)"
  shows "monitor (calls (env pg)) (None, 0) = Some (live pg, constructions pg) \<and>
         constructions (step e pg) =
           constructions pg + (if isMount e \<and> mounted pg = None then 1 else 0) \<and>
         disposals (step e pg) =
           disposals pg + (if e = Unmount \<and> mounted pg \<noteq> None then 1 else 0)"
proof -
  have i: "pageInv pg" using assms by (simp add: pageInv_reachable)
  have m: "monitor (calls (env pg)) (None, 0) = Some (live pg, constructions pg)"
    using i by (simp add: pageInv_def)
  have cd: "constructions (step e pg) =
           constructions pg + (if isMount e \<and> mounted pg = None then 1 else 0) \<and>
         disposals (step e pg) =
           disposals pg + (if e = Unmount \<and> mounted pg \<noteq> None then 1 else 0)"
  proof (cases "mounted pg")
    case None
    then show ?thesis
      by (cases e) (simp_all add: into_def mount_eq constructions_def disposals_def filter_setupCalls)
  next
    case (Some c)
    from i Some obtain p where pr: "playerRef c = Some p" "cleanup c"
      by (rule pageInv_mounted)
    with Some show ?thesis
      by (cases e)
         (auto simp: into_def unmount_def removeContainer_def Let_def cleanupEffect_def setVideoUrl_def
           sourceEffect_def widgetEvent_def setIsReady_def clickRate_def emit_def
           constructions_def disposals_def split: prod.splits option.splits)
  qed
  from m cd show ?thesis by simp
qed

theorem mount_unmount_alternate_witness:
  "monitor (calls (env (run [Mount 0 ''u'' None, Unmount, Mount 1 ''u'' None] (init None))))
     (None, 0) = Some (Some 1, 2) \<and>
   constructions (step (SetVideoUrl ''v'')
     (run [Mount 0 ''u'' None, Unmount, Mount 1 ''u'' None] (init None))) = 2 \<and>
   disposals (step Unmount
     (run [Mount 0 ''u'' None, Unmount, Mount 1 ''u'' None] (init None))) = 2 \<and>
   constructions (step (Mount 2 ''u'' None) (run [Mount 0 ''u'' None, Unmount] (init None))) = 2"
  using mount_unmount_alternate [OF refl, of "[Mount 0 ''u'' None, Unmount, Mount 1 ''u'' None]" None "SetVideoUrl ''v''"]
    mount_unmount_alternate [OF refl, of "[Mount 0 ''u'' None, Unmount, Mount 1 ''u'' None]" None Unmount]
    mount_unmount_alternate [OF refl, of "[Mount 0 ''u'' None, Unmount]" None "Mount 2 ''u'' None"]
  by (simp add: evals)

text \<open>
  Claim C2. The rates are 0.5, 1, 1.5 and 2, and the mounted instance has one menu item for
  each, in this order. In every reachable state, a click on the item of a rate appends
  exactly one call to the trace, \<open>playbackRate\<close> on the instance's widget with that rate,
  and changes nothing else.
\<close>

theorem click_sets_rate:
  assumes "pg = run es (init q)" and "mounted pg = Some c" and "i < length playbackRates"
  shows "playbackRates = [1 / 2, 1, 3 / 2, 2] \<and>
         map fst (menuItems c) = playbackRates \<and>
         (\<exists>p. playerRef c = Some p \<and>
            step (ClickRate i) pg = pg\<lparr>env := emit [PlaybackRate p (playbackRates ! i)] (env pg)\<rparr>)"
proof -
  have "pageInv pg" using assms(1) by (simp add: pageInv_reachable)
  then obtain p where p: "playerRef c = Some p"
    and items: "menuItems c = [(1 / 2, p), (1, p), (3 / 2, p), (2, p)]"
    using assms(2) by (rule pageInv_mounted)
  have i: "i < 4" using assms(3) by (simp add: playbackRates_def)
  have "step (ClickRate i) pg = pg\<lparr>env := emit [PlaybackRate p (playbackRates ! i)] (env pg)\<rparr>"
    using assms(2) i items by (simp add: clickRate_def into_def nth_items playbackRates_def)
  with p items show ?thesis by (simp add: playbackRates_def)
qed

theorem click_sets_rate_witness:
  "mounted (run [Mount 0 ''u'' None, Widget ''ready''] (init None)) =
     Some ((mountedWith 0 ''u'' None 0)\<lparr>isReady := True\<rparr>) \<and>
   (2::nat) < length playbackRates \<and>
   calls (env (step (ClickRate 2) (run [Mount 0 ''u'' None, Widget ''ready''] (init None)))) =
     calls (env (run [Mount 0 ''u'' None, Widget ''ready''] (init None))) @ [PlaybackRate 0 (3 / 2)]"
  using click_sets_rate [OF refl, of "[Mount 0 ''u'' None, Widget ''ready'']" None
      "(mountedWith 0 ''u'' None 0)\<lparr>isReady := True\<rparr>" 2]
  by (simp add: evals mountedWith_def)

text \<open>
  Claim C3, as stated, fails: setting another URL before the widget is ready is not
  without effect. The instance keeps the new URL (its \<open>videoUrl\<close> prop changes, with the ready
  flag still false), and when the widget then reports ready the \<open>src\<close> call is made with
  that URL.
\<close>

theorem source_before_ready_kept_counterexample:
  "map_option videoUrl (mounted (run [Mount 0 ''u'' None, SetVideoUrl ''v''] (init None))) = Some ''v'' \<and>
   map_option videoUrl (mounted (run [Mount 0 ''u'' None] (init None))) = Some ''u'' \<and>
   map_option isReady (mounted (run [Mount 0 ''u'' None, SetVideoUrl ''v''] (init None))) = Some False \<and>
   last (calls (env (run [Mount 0 ''u'' None, SetVideoUrl ''v'', Widget ''ready''] (init None)))) =
     Src 0 ''v'' ''application/x-mpegURL''"
  by (simp add: evals)

text \<open>
  Claim C3, amended. In every reachable state with a mounted instance, setting the source
  URL makes a call into the widget only when the ready flag is true: before ready it
  issues no call and only the \<open>videoUrl\<close> prop takes the new URL; when the widget reports
  ready, exactly one \<open>src\<close> call is issued, with the URL the instance holds then and the HLS
  type. After ready, setting a URL that differs from the current one issues exactly one
  \<open>src\<close> call with the new URL and the HLS type; setting the same URL issues none.
\<close>

theorem source_set_on_ready_or_change:
  assumes "pg = run es (init q)" and "mounted pg = Some c"
  shows "\<exists>p. playerRef c = Some p \<and>
           step (SetVideoUrl url) pg =
             pg\<lparr>mounted := Some (c\<lparr>videoUrl := url\<rparr>),
                env := (if isReady c \<and> videoUrl c \<noteq> url
                        then emit [Src p url ''application/x-mpegURL''] (env pg)
                        else env pg)\<rparr> \<and>
           step (Widget ''ready'') pg =
             (if isReady c then pg
              else pg\<lparr>mounted := Some (c\<lparr>isReady := True\<rparr>),
                      env := emit [Src p (videoUrl c) ''application/x-mpegURL''] (env pg)\<rparr>)"
proof -
  have "pageInv pg" using assms(1) by (simp add: pageInv_reachable)
  then obtain p where p: "playerRef c = Some p" and s: "subscribed c = [''ready'']"
    using assms(2) by (rule pageInv_mounted)
  have u: "step (SetVideoUrl url) pg =
             pg\<lparr>mounted := Some (c\<lparr>videoUrl := url\<rparr>),
                env := (if isReady c \<and> videoUrl c \<noteq> url
                        then emit [Src p url ''application/x-mpegURL''] (env pg)
                        else env pg)\<rparr>"
    using assms(2) p by (auto simp: setVideoUrl_def sourceEffect_def into_def)
  have r: "step (Widget ''ready'') pg =
             (if isReady c then pg
              else pg\<lparr>mounted := Some (c\<lparr>isReady := True\<rparr>),
                      env := emit [Src p (videoUrl c) ''application/x-mpegURL''] (env pg)\<rparr>)"
    using assms(2) p s by (auto simp: widgetEvent_def setIsReady_def sourceEffect_def into_def)
  from p u r show ?thesis by simp
qed

theorem source_set_on_ready_or_change_witness:
  "mounted (run [Mount 0 ''u'' None] (init None)) = Some (mountedWith 0 ''u'' None 0) \<and>
   calls (env (step (SetVideoUrl ''v'') (run [Mount 0 ''u'' None] (init None)))) =
     calls (env (run [Mount 0 ''u'' None] (init None))) \<and>
   calls (env (step (Widget ''ready'') (run [Mount 0 ''u'' None, SetVideoUrl ''v''] (init None)))) =
     calls (env (run [Mount 0 ''u'' None] (init None))) @ [Src 0 ''v'' ''application/x-mpegURL''] \<and>
   mounted (run [Mount 0 ''u'' None, Widget ''ready''] (init None)) =
     Some ((mountedWith 0 ''u'' None 0)\<lparr>isReady := True\<rparr>) \<and>
   calls (env (step (SetVideoUrl ''v'') (run [Mount 0 ''u'' None, Widget ''ready''] (init None)))) =
     calls (env (run [Mount 0 ''u'' None, Widget ''ready''] (init None))) @
     [Src 0 ''v'' ''application/x-mpegURL'']"
  using source_set_on_ready_or_change [OF refl, of "[Mount 0 ''u'' None]" None "mountedWith 0 ''u'' None 0" "''v''"]
    source_set_on_ready_or_change [OF refl, of "[Mount 0 ''u'' None, SetVideoUrl ''v'']" None
      "(mountedWith 0 ''u'' None 0)\<lparr>videoUrl := ''v''\<rparr>" "''w''"]
    source_set_on_ready_or_change [OF refl, of "[Mount 0 ''u'' None, Widget ''ready'']" None
      "(mountedWith 0 ''u'' None 0)\<lparr>isReady := True\<rparr>" "''v''"]
  by (simp add: evals mountedWith_def)

text \<open>
  Claim C4, as stated, fails: after the mount with the URL of the scenario, the constructor
  call carries the container and the configuration only, the configuration has neither a
  \<open>sources\<close> nor a \<open>src\<close> key, and no \<open>src\<close> call has been made.
\<close>

theorem source_not_in_constructor_counterexample:
  "calls (env (run [Mount 0 ''https://host/playlist.m3u8'' None] (init None))) =
     [Videojs 0 playerOptions, AddChild 0 ''button'' ''1x'',
      AddClass 0 ''1x'' ''vjs-playback-rate-button'',
      CreateEl 0 ''li'' (1 / 2), CreateEl 0 ''li'' 1, CreateEl 0 ''li'' (3 / 2),
      CreateEl 0 ''li'' 2, Ready 0] \<and>
   field ''sources'' playerOptions = None \<and> field ''src'' playerOptions = None"
  by (simp add: evals playerOptions_def)

text \<open>
  Claim C4, amended. Mounting the wrapper constructs the widget on the container with the
  configuration \<open>controls: true\<close>, \<open>autoplay: true\<close>, \<open>preload: "auto"\<close>, \<open>responsive: true\<close>,
  \<open>fluid: true\<close> and \<open>html5.hls.overrideNative: true\<close>, and with no source. The URL of the
  mount is passed to the widget, with the type \<open>application/x-mpegURL\<close>, by the one \<open>src\<close>
  call that the widget's ready event triggers.
\<close>

theorem constructed_then_sourced:
  assumes "pg = run es (init q)" and "mounted pg = None" and "p = constructions pg"
  shows "calls (env (step (Mount el url cb) pg)) =
           calls (env pg) @
           [Videojs el (JObject
              [(''controls'', JBool True), (''autoplay'', JBool True),
               (''preload'', JString ''auto''), (''responsive'', JBool True),
               (''fluid'', JBool True),
               (''html5'', JObject [(''hls'', JObject [(''overrideNative'', JBool True)])])]),
            AddChild p ''button'' ''1x'', AddClass p ''1x'' ''vjs-playback-rate-button'',
            CreateEl p ''li'' (1 / 2), CreateEl p ''li'' 1, CreateEl p ''li'' (3 / 2),
            CreateEl p ''li'' 2] @ qualityCalls p q @ [Ready p] \<and>
         calls (env (step (Widget ''ready'') (step (Mount el url cb) pg))) =
           calls (env (step (Mount el url cb) pg)) @ [Src p url ''application/x-mpegURL'']"
proof -
  have "pageInv pg" using assms(1) by (simp add: pageInv_reachable)
  then have p: "created (env pg) = p" using assms(3) by (simp add: pageInv_def)
  have q: "qualityLevels (env pg) = q"
    using assms(1) by (simp add: qualityLevels_run init_def)
  show ?thesis
    using assms(2) p q
    by (simp add: into_def mount_eq setupCalls_def playerOptions_def mountedWith_def
        widgetEvent_def setIsReady_def sourceEffect_def emit_def)
qed

theorem constructed_then_sourced_witness:
  "mounted (run [] (init (Some 0))) = None \<and>
   calls (env (run [Mount 5 ''https://host/playlist.m3u8'' None, Widget ''ready''] (init (Some 0)))) =
     [Videojs 5 playerOptions, AddChild 0 ''button'' ''1x'',
      AddClass 0 ''1x'' ''vjs-playback-rate-button'',
      CreateEl 0 ''li'' (1 / 2), CreateEl 0 ''li'' 1, CreateEl 0 ''li'' (3 / 2),
      CreateEl 0 ''li'' 2, QualityLevels 0, Ready 0,
      Src 0 ''https://host/playlist.m3u8'' ''application/x-mpegURL'']"
  using constructed_then_sourced [OF refl, of "[]" "Some 0" 0 5 "''https://host/playlist.m3u8''" None]
  by (simp add: evals playerOptions_def qualityCalls_def)








text \<open>
  Claim C9, as stated, fails: the widget's error event after a mount logs nothing and
  leaves the state as it was.
\<close>

theorem error_not_logged_counterexample:
  "filter isConsoleError (calls (env (run [Mount 0 ''u'' None, Widget ''error''] (init None)))) = [] \<and>
   run [Mount 0 ''u'' None, Widget ''error''] (init None) = run [Mount 0 ''u'' None] (init None)"
  by (simp add: evals)

text \<open>
  Claim C9, amended. The wrapper subscribes to the widget's \<open>ready\<close> event only. In every
  reachable state an error event of the widget runs no code of the wrapper: the instance
  and the trace stay as they are, so there is no log entry written by the wrapper, no
  retry, no other source, no error state, and no callback is invoked.
\<close>

theorem error_event_ignored:
  assumes "pg = run es (init q)"
  shows "step (Widget ''error'') pg = pg \<and>
         (\<forall>c. mounted pg = Some c \<longrightarrow> subscribed c = [''ready''])"
proof -
  have i: "pageInv pg" using assms by (simp add: pageInv_reachable)
  have "step (Widget ''error'') pg = pg"
    by (cases "mounted pg") (simp_all add: widgetEvent_def into_def)
  moreover have "subscribed c = [''ready'']" if "mounted pg = Some c" for c
    using i that by (rule pageInv_mounted)
  ultimately show ?thesis by simp
qed

theorem error_event_ignored_witness:
  "mounted (run [Mount 0 ''u'' None] (init None)) = Some (mountedWith 0 ''u'' None 0) \<and>
   subscribed (mountedWith 0 ''u'' None 0) = [''ready''] \<and>
   step (Widget ''error'') (run [Mount 0 ''u'' None] (init None)) = run [Mount 0 ''u'' None] (init None)"
  using error_event_ignored [OF refl, of "[Mount 0 ''u'' None]" None]
  by (simp add: evals mountedWith_def)

text \<open>
  Claim C10. When \<open>videoRef\<close> is null, the mount effect returns the instance and the
  environment as they are: no widget call is made and no cleanup function is kept, so a
  later unmount of an instance that had no cleanup function does nothing either. The
  effect has no other outcome: it returns normally.
\<close>

theorem null_container_is_noop:
  assumes "videoRef c = None" and "\<not> cleanup c"
  shows "mountEffect c w = (c, w) \<and> unmount c w = w"
  using assms by (simp add: mountEffect_def unmount_def removeContainer_def Let_def)

theorem null_container_is_noop_witness:
  "videoRef (render0 ''u'' None) = None \<and> \<not> cleanup (render0 ''u'' None) \<and>
   mountEffect (render0 ''u'' None) (env (init None)) = (render0 ''u'' None, env (init None)) \<and>
   unmount (render0 ''u'' None) (env (init None)) = env (init None)"
  using null_container_is_noop [of "render0 ''u'' None" "env (init None)"]
  by (simp add: render0_def)

section \<open>The claims about the page\<close>

lemmas home_evals =
  browse_def home0_def setIsOpen_def Dialog_def NotifyClose_def

lemma pageInv_notify:
  assumes "pageInv pg"
  shows "pageInv (pg\<lparr>env := emit [OnClose cb] (env pg)\<rparr>)"
  using assms
  by (auto simp: pageInv_def emit_def constructions_def disposals_def live_def monitor_append
      rates_append split: option.splits)

lemma mounted_step_props:
  assumes "mounted pg = Some c" and "\<not> isMount e" and "e \<noteq> Unmount" and "\<forall>u. e \<noteq> SetVideoUrl u"
  shows "\<exists>c'. mounted (step e pg) = Some c' \<and> onClose c' = onClose c \<and> videoUrl c' = videoUrl c"
  using assms
  by (cases e)
     (auto simp: into_def widgetEvent_def setIsReady_def sourceEffect_def clickRate_def
       split: option.splits prod.splits)

lemma homeInv_Dialog:
  assumes "pageInv (content h)"
    and "\<forall>c. mounted (content h) = Some c \<longrightarrow> onClose c = Some (SetIsOpen False) \<and> videoUrl c = VIDEO_URL"
  shows "homeInv (Dialog h)"
proof (cases "mounted (content h)")
  case None
  have "pageInv (step (Mount (nodes h) VIDEO_URL (Some (SetIsOpen False))) (content h))"
    using assms(1) by (rule pageInv_step)
  with None assms(1) show ?thesis
    by (simp add: homeInv_def Dialog_def into_def mount_eq mountedWith_def)
next
  case (Some c)
  have "pageInv (step Unmount (content h))"
    using assms(1) by (rule pageInv_step)
  with Some assms show ?thesis
    by (simp add: homeInv_def Dialog_def)
qed

lemma homeInv_setIsOpen:
  assumes "homeInv h"
  shows "homeInv (setIsOpen b h)"
proof (cases "isOpen h = b")
  case True
  with assms show ?thesis by (simp add: setIsOpen_def)
next
  case False
  have "homeInv (Dialog (h\<lparr>isOpen := b\<rparr>))"
    using assms by (intro homeInv_Dialog) (auto simp: homeInv_def split: option.splits)
  with False show ?thesis by (simp add: setIsOpen_def)
qed

lemma step_unmounted:
  assumes "mounted pg = None" and "\<not> isMount e"
  shows "step e pg = pg"
  using assms by (cases e) simp_all

lemma homeInv_inner:
  assumes "homeInv h" and "\<not> isMount e" and "e \<noteq> Unmount" and "\<forall>u. e \<noteq> SetVideoUrl u"
  shows "homeInv (h\<lparr>content := step e (content h)\<rparr>)"
proof (cases "mounted (content h)")
  case None
  then have "step e (content h) = content h"
    using assms(2) by (rule step_unmounted)
  with assms(1) show ?thesis by (simp add: homeInv_def)
next
  case (Some c)
  have pi: "pageInv (step e (content h))"
    using assms(1) unfolding homeInv_def by (blast intro: pageInv_step)
  obtain c' where c': "mounted (step e (content h)) = Some c'" "onClose c' = onClose c"
    "videoUrl c' = videoUrl c"
    using mounted_step_props [OF Some assms(2-4)] by blast
  have "isOpen h \<and> onClose c = Some (SetIsOpen False) \<and> videoUrl c = VIDEO_URL"
    using assms(1) Some by (simp add: homeInv_def)
  with pi c' show ?thesis unfolding homeInv_def by simp
qed

lemma homeInv_act:
  assumes "homeInv h"
  shows "homeInv (act a h)"
proof (cases a)
  case ClickStart
  with assms show ?thesis by (simp add: homeInv_setIsOpen)
next
  case (OnOpenChange b)
  with assms show ?thesis by (simp add: homeInv_setIsOpen)
next
  case (WidgetEmits name)
  have "homeInv (h\<lparr>content := step (Widget name) (content h)\<rparr>)"
    using assms by (rule homeInv_inner) simp_all
  with WidgetEmits show ?thesis by simp
next
  case (ClickSpeed i)
  have "homeInv (h\<lparr>content := step (ClickRate i) (content h)\<rparr>)"
    using assms by (rule homeInv_inner) simp_all
  with ClickSpeed show ?thesis by simp
next
  case ClickClose
  show ?thesis
  proof (cases "mounted (content h)")
    case None
    with assms ClickClose show ?thesis by simp
  next
    case (Some c)
    let ?h = "h\<lparr>content := (content h)\<lparr>env := emit [OnClose (SetIsOpen False)] (env (content h))\<rparr>\<rparr>"
    have "homeInv ?h"
      using assms Some by (simp add: homeInv_def pageInv_notify)
    then have "homeInv (setIsOpen False ?h)" by (rule homeInv_setIsOpen)
    moreover have "onClose c = Some (SetIsOpen False)"
      using assms Some by (simp add: homeInv_def)
    ultimately show ?thesis
      using ClickClose Some by (simp add: NotifyClose_def)
  qed
qed

lemma homeInv_home0: "homeInv (home0 q)"
  by (simp add: homeInv_def home0_def pageInv_init) (simp add: init_def)

lemma homeInv_browse: "homeInv h \<Longrightarrow> homeInv (browse as h)"
  unfolding browse_def by (induction as arbitrary: h) (simp_all add: homeInv_act)

text \<open>
  Claim C5. In every state the page can reach, the wrapper is mounted, and holds a widget,
  exactly when \<open>isOpen\<close> is true; the number of widgets constructed and not yet disposed is
  one when the modal is open and zero when it is closed, and constructions and disposals
  alternate.
\<close>

theorem session_iff_open:
  assumes "h = browse as (home0 q)"
  shows "(mounted (content h) \<noteq> None) = isOpen h \<and>
         (live (content h) \<noteq> None) = isOpen h \<and>
         constructions (content h) = disposals (content h) + (if isOpen h then 1 else 0) \<and>
         monitor (calls (env (content h))) (None, 0) =
           Some (live (content h), constructions (content h))"
proof -
  have "homeInv h" using assms by (simp add: homeInv_browse homeInv_home0)
  then show ?thesis
    by (cases "mounted (content h)") (auto simp: homeInv_def pageInv_def live_def)
qed

theorem session_iff_open_witness:
  "isOpen (browse [ClickStart, WidgetEmits ''ready'', ClickClose, ClickStart] (home0 None)) \<and>
   live (content (browse [ClickStart, WidgetEmits ''ready'', ClickClose, ClickStart] (home0 None))) = Some 1 \<and>
   constructions (content (browse [ClickStart, WidgetEmits ''ready'', ClickClose, ClickStart] (home0 None))) = 2 \<and>
   disposals (content (browse [ClickStart, WidgetEmits ''ready'', ClickClose, ClickStart] (home0 None))) = 1 \<and>
   \<not> isOpen (browse [ClickStart, OnOpenChange False] (home0 None)) \<and>
   mounted (content (browse [ClickStart, OnOpenChange False] (home0 None))) = None"
  using session_iff_open [OF refl, of "[ClickStart, WidgetEmits ''ready'', ClickClose, ClickStart]" None]
    session_iff_open [OF refl, of "[ClickStart, OnOpenChange False]" None]
  by (simp add: evals home_evals)

text \<open>
  \<open>VideoPlayer.tsx\<close> by itself never invokes \<open>onClose\<close>: no event of its life cycle puts
  an invocation into the trace.
\<close>

lemma filter_isOnClose_setupCalls: "filter isOnClose (setupCalls el p q) = []"
  by (simp add: setupCalls_def qualityCalls_def split: option.splits)

lemma onClose_step:
  assumes "filter isOnClose (calls (env pg)) = []"
  shows "filter isOnClose (calls (env (step e pg))) = []"
  using assms
  by (cases e; cases "mounted pg")
     (auto simp: into_def mount_eq filter_isOnClose_setupCalls unmount_def removeContainer_def Let_def
        cleanupEffect_def setVideoUrl_def sourceEffect_def widgetEvent_def setIsReady_def clickRate_def emit_def
        split: option.splits prod.splits)

lemma onClose_never_invoked: "filter isOnClose (calls (env (run es (init q)))) = []"
proof -
  have "filter isOnClose (calls (env pg)) = [] \<Longrightarrow>
        filter isOnClose (calls (env (run es pg))) = []" for pg
    unfolding run_def by (induction es arbitrary: pg) (simp_all add: onClose_step)
  then show ?thesis by (simp add: init_def)
qed

text \<open>
  Claim C6, as stated, fails in its order: when the modal is opened and the close action
  is activated, the callback is invoked, then the container element is removed, and the
  widget is disposed after that.
\<close>

theorem disposal_after_removal_counterexample:
  "calls (env (content (browse [ClickStart, ClickClose] (home0 None)))) =
     calls (env (content (browse [ClickStart] (home0 None)))) @
     [OnClose (SetIsOpen False), RemoveChild 0, Dispose 0]"
  by (simp add: evals home_evals)

text \<open>
  Claim C6, amended. In every reachable state of the page with the modal open, the close
  action appends exactly three entries to the trace, in this order: the \<open>onClose\<close> callback
  the page supplied is invoked, once; the container element is removed; the widget of the
  mounted wrapper is disposed, once, by the cleanup of the mount effect. Afterwards the
  modal is closed and nothing is mounted.
\<close>

theorem close_notifies_then_disposes:
  assumes "h = browse as (home0 q)" and "isOpen h"
  shows "\<exists>c el p. mounted (content h) = Some c \<and> videoRef c = Some el \<and> playerRef c = Some p \<and>
           act ClickClose h =
             h\<lparr>isOpen := False,
               content := \<lparr>mounted = None,
                           env = emit [OnClose (SetIsOpen False), RemoveChild el, Dispose p]
                                   (env (content h))\<rparr>\<rparr>"
proof -
  have i: "homeInv h" using assms(1) by (simp add: homeInv_browse homeInv_home0)
  with assms(2) obtain c where c: "mounted (content h) = Some c"
    and cb: "onClose c = Some (SetIsOpen False)"
    by (cases "mounted (content h)") (auto simp: homeInv_def)
  from i have "pageInv (content h)" by (simp add: homeInv_def)
  then obtain p el where r: "playerRef c = Some p" "videoRef c = Some el" "cleanup c"
    using c by (rule pageInv_mounted)
  have "act ClickClose h =
             h\<lparr>isOpen := False,
               content := \<lparr>mounted = None,
                           env = emit [OnClose (SetIsOpen False), RemoveChild el, Dispose p]
                                   (env (content h))\<rparr>\<rparr>"
    using c cb r assms(2)
    by (simp add: NotifyClose_def setIsOpen_def Dialog_def removeContainer_def unmount_def Let_def
        cleanupEffect_def emit_def)
  with c r show ?thesis by simp
qed

theorem close_notifies_then_disposes_witness:
  "isOpen (browse [ClickStart, WidgetEmits ''ready''] (home0 None)) \<and>
   \<not> isOpen (act ClickClose (browse [ClickStart, WidgetEmits ''ready''] (home0 None))) \<and>
   mounted (content (act ClickClose (browse [ClickStart, WidgetEmits ''ready''] (home0 None)))) = None \<and>
   calls (env (content (act ClickClose (browse [ClickStart, WidgetEmits ''ready''] (home0 None))))) =
     calls (env (content (browse [ClickStart, WidgetEmits ''ready''] (home0 None)))) @
     [OnClose (SetIsOpen False), RemoveChild 0, Dispose 0]"
  using close_notifies_then_disposes [OF refl, of "[ClickStart, WidgetEmits ''ready'']" None]
  by (simp add: evals home_evals)

text \<open>
  Claim C8. The labels are auto, 1080, 720, 480 and 360. Selecting one of them sets the
  selected label of the session to it and changes nothing else: the other attributes of
  the session and the trace of widget calls stay as they are.
\<close>

theorem quality_label_display_only:
  assumes "label \<in> set qualityLabels"
  shows "qualityLabels = [''auto'', ''1080'', ''720'', ''480'', ''360''] \<and>
         SetQualityLabel label (s, trace) = (s\<lparr>selectedQuality := label\<rparr>, trace)"
  using assms by (simp add: SetQualityLabel_def qualityLabels_def)

theorem quality_label_display_only_witness:
  "''720'' \<in> set qualityLabels \<and>
   SetQualityLabel ''720''
       (\<lparr>sourceUrl = VIDEO_URL, playbackRate = 1, selectedQuality = ''auto'', ready = True\<rparr>, []) =
     (\<lparr>sourceUrl = VIDEO_URL, playbackRate = 1, selectedQuality = ''720'', ready = True\<rparr>, [])"
  using quality_label_display_only [of "''720''"
      "\<lparr>sourceUrl = VIDEO_URL, playbackRate = 1, selectedQuality = ''auto'', ready = True\<rparr>" "[]"]
  by (simp add: qualityLabels_def)

end
